theory Spec2Isabelle
  imports Complex_Main "HOL-Library.AList"
begin

section \<open>The record store\<close>

text \<open>
  The program keeps six SQLite tables. A table is the list of its rows in primary-key
  order. Amounts are SQLite REAL columns filled from Python floats; they are modelled as
  exact real numbers, so rounding, infinities and NaN are outside the model. Timestamps
  and target dates are TEXT columns and stay strings, because the period queries compare
  pieces of that text.
\<close>

record ledger_row =
  entry_id :: int
  category :: string
  amount :: real
  timestamp :: string

record budget_row =
  budget_id :: int
  budget_category :: string
  budget_amount :: real
  budget_month :: int
  budget_year :: int

record savings_goal =
  goal_id :: int
  goal_name :: string
  target_amount :: real
  current_saved :: real
  target_date :: string

record database =
  expenses :: "ledger_row list"
  expense_categories :: "(int \<times> string) list"
  income :: "ledger_row list"
  income_categories :: "(int \<times> string) list"
  budget :: "budget_row list"
  savings_goals :: "savings_goal list"

definition empty_database :: database where
  "empty_database =
     \<lparr>expenses = [], expense_categories = [], income = [], income_categories = [],
      budget = [], savings_goals = []\<rparr>"

text \<open>
  INTEGER PRIMARY KEY AUTOINCREMENT: a new row gets an id above every id of the table.
  The operations modelled here never delete a row, so that is one more than the largest.
\<close>

definition next_id :: "int list \<Rightarrow> int" where
  "next_id ids = fold max ids 0 + 1"

section \<open>Text of numbers and dates\<close>

definition is_digit :: "char \<Rightarrow> bool" where
  "is_digit c = (c \<in> set ''0123456789'')"

text \<open>The value of a decimal digit; a blank counts 0, as \<open>int(' 5')\<close> reads 5.\<close>

definition digit_val :: "char \<Rightarrow> nat" where
  "digit_val c =
     (case map_of (zip ''0123456789'' [0, 1, 2, 3, 4, 5, 6, 7, 8, 9]) c of
        None \<Rightarrow> 0
      | Some d \<Rightarrow> d)"

definition py_int :: "string \<Rightarrow> nat" where
  "py_int s = foldl (\<lambda>n c. 10 * n + digit_val c) 0 s"

definition digit_char :: "nat \<Rightarrow> char" where
  "digit_char d = ''0123456789'' ! (d mod 10)"

text \<open>\<open>str(n)\<close> of a natural number, and of an integer.\<close>

fun str_nat :: "nat \<Rightarrow> string" where
  "str_nat n = (if n < 10 then [digit_char n] else str_nat (n div 10) @ [digit_char n])"

declare str_nat.simps [simp del]

definition py_str :: "int \<Rightarrow> string" where
  "py_str i = (if i < 0 then CHR ''-'' # str_nat (nat (- i)) else str_nat (nat i))"

text \<open>The format \<open>f"{month:02d}"\<close>: at least two characters, padded with a zero.\<close>

definition fmt_02d :: "int \<Rightarrow> string" where
  "fmt_02d i = (if 0 \<le> i \<and> i < 10 then CHR ''0'' # py_str i else py_str i)"

text \<open>The ASCII characters \<open>str.strip()\<close> removes from both ends.\<close>

definition is_space :: "char \<Rightarrow> bool" where
  "is_space c =
     (c \<in> set [CHR '' '', CHR 0x09, CHR 0x0A, CHR 0x0B, CHR 0x0C, CHR 0x0D,
                CHR 0x1C, CHR 0x1D, CHR 0x1E, CHR 0x1F])"

definition strip :: "string \<Rightarrow> string" where
  "strip s = rev (dropWhile is_space (rev (dropWhile is_space s)))"

subsection \<open>\<open>datetime.strptime(date, '%Y-%m-%d')\<close>\<close>

text \<open>
  Python reads \<open>%Y\<close> as exactly four digits, \<open>%m\<close> as \<open>1[0-2]|0[1-9]|[1-9]\<close> and
  \<open>%d\<close> as \<open>3[01]|[12]\d|0[1-9]|[1-9]| [1-9]\<close>: the leading zero of a month or a day
  is optional. The whole text has to be consumed and the date has to exist (year at
  least 1, day within the month). \<open>None\<close> stands for the \<open>ValueError\<close>.
\<close>

definition month_field :: "string \<Rightarrow> bool" where
  "month_field s =
     (case s of
        [c] \<Rightarrow> c \<in> set ''123456789''
      | [c, d] \<Rightarrow> (c = CHR ''1'' \<and> d \<in> set ''012'') \<or> (c = CHR ''0'' \<and> d \<in> set ''123456789'')
      | _ \<Rightarrow> False)"

definition day_field :: "string \<Rightarrow> bool" where
  "day_field s =
     (case s of
        [c] \<Rightarrow> c \<in> set ''123456789''
      | [c, d] \<Rightarrow> (c = CHR ''3'' \<and> d \<in> set ''01'') \<or> (c \<in> set ''12'' \<and> is_digit d)
                 \<or> (c = CHR ''0'' \<and> d \<in> set ''123456789'')
                 \<or> (c = CHR '' '' \<and> d \<in> set ''123456789'')
      | _ \<Rightarrow> False)"

definition leap_year :: "nat \<Rightarrow> bool" where
  "leap_year y = (y mod 4 = 0 \<and> (0 < y mod 100 \<or> y mod 400 = 0))"

definition days_in_month :: "nat \<Rightarrow> nat \<Rightarrow> nat" where
  "days_in_month y m =
     (if m = 2 then (if leap_year y then 29 else 28)
      else if m = 4 \<or> m = 6 \<or> m = 9 \<or> m = 11 then 30 else 31)"

definition strptime_Ymd :: "string \<Rightarrow> (nat \<times> nat \<times> nat) option" where
  "strptime_Ymd s =
     (let Y = take 4 s;
          rest = drop 5 s;
          M = takeWhile (\<lambda>c. c \<noteq> CHR ''-'') rest;
          D = drop (Suc (length M)) rest
      in if length Y = 4 \<and> list_all is_digit Y \<and> take 1 (drop 4 s) = ''-''
            \<and> month_field M \<and> take 1 (drop (length M) rest) = ''-'' \<and> day_field D
            \<and> 1 \<le> py_int Y \<and> py_int D \<le> days_in_month (py_int Y) (py_int M)
         then Some (py_int Y, py_int M, py_int D)
         else None)"

subsection \<open>SQLite's \<open>strftime\<close> and \<open>SUBSTR\<close> on a stored timestamp\<close>

text \<open>
  SQLite's date functions read a date-only text only in the form of four digits, a dash,
  two digits, a dash, two digits; on any other text that \<open>strptime\<close> lets into the
  tables they return NULL, and a comparison with NULL selects nothing. For a date that
  exists, \<open>%m\<close> and \<open>%Y\<close> give back the two and the four digits.
\<close>

definition iso_date :: "string \<Rightarrow> bool" where
  "iso_date ts =
     (length ts = 10 \<and> list_all is_digit (take 4 ts) \<and> take 1 (drop 4 ts) = ''-''
      \<and> list_all is_digit (take 2 (drop 5 ts)) \<and> take 1 (drop 7 ts) = ''-''
      \<and> list_all is_digit (drop 8 ts)
      \<and> 1 \<le> py_int (take 2 (drop 5 ts)) \<and> py_int (take 2 (drop 5 ts)) \<le> 12
      \<and> 1 \<le> py_int (drop 8 ts) \<and> py_int (drop 8 ts) \<le> 31)"

definition strftime_m :: "string \<Rightarrow> string option" where
  "strftime_m ts = (if iso_date ts then Some (take 2 (drop 5 ts)) else None)"

definition strftime_Y :: "string \<Rightarrow> string option" where
  "strftime_Y ts = (if iso_date ts then Some (take 4 ts) else None)"

text \<open>\<open>SUBSTR(x, start, len)\<close> with a start counted from 1.\<close>

definition substr :: "string \<Rightarrow> nat \<Rightarrow> nat \<Rightarrow> string" where
  "substr x start len = take len (drop (start - 1) x)"

text \<open>\<open>COALESCE(SUM(amount), 0)\<close> over the selected rows.\<close>

definition sum_amount :: "ledger_row list \<Rightarrow> real" where
  "sum_amount rows = sum_list (map amount rows)"

text \<open>
  The filter \<open>strftime('%m', timestamp) = ? AND strftime('%Y', timestamp) = ?\<close> with the
  parameters \<open>(f"{month:02d}", str(year))\<close>.
\<close>

definition in_period :: "int \<Rightarrow> int \<Rightarrow> ledger_row \<Rightarrow> bool" where
  "in_period month year r =
     (strftime_m (timestamp r) = Some (fmt_02d month)
      \<and> strftime_Y (timestamp r) = Some (py_str year))"

text \<open>
  The period of a row as the specification words it: the month and the year of the
  calendar date that was entered, as \<open>strptime\<close> read it when the row was added.
\<close>

definition dated_in :: "int \<Rightarrow> int \<Rightarrow> ledger_row \<Rightarrow> bool" where
  "dated_in month year r =
     (case strptime_Ymd (timestamp r) of
        None \<Rightarrow> False
      | Some (y, m, d) \<Rightarrow> int m = month \<and> int y = year)"

text \<open>A timestamp typed with both leading zeros, for a date that exists.\<close>

definition padded :: "ledger_row \<Rightarrow> bool" where
  "padded r = (iso_date (timestamp r) \<and> (case strptime_Ymd (timestamp r) of None \<Rightarrow> False | Some _ \<Rightarrow> True))"

section \<open>Categories and ledger entries\<close>

datatype add_outcome =
    DateInputEnded
  | UnableWithoutCategory
  | InvalidNumber
  | InvalidCategorySelection
  | EntryAdded

text \<open>
  \<open>INSERT INTO expense_categories (name)\<close>: the name column is UNIQUE, and
  \<open>execute_query\<close> swallows the constraint error, so a duplicate changes nothing.
\<close>

definition insert_category :: "string \<Rightarrow> (int \<times> string) list \<Rightarrow> (int \<times> string) list" where
  "insert_category name cats =
     (if name \<in> set (map snd cats) then cats else cats @ [(next_id (map fst cats), name)])"

definition add_expense_category :: "string \<Rightarrow> database \<Rightarrow> database" where
  "add_expense_category name_input db =
     (let category_name = strip name_input
      in if category_name = [] then db
         else db\<lparr>expense_categories := insert_category category_name (expense_categories db)\<rparr>)"

definition add_income_category :: "string \<Rightarrow> database \<Rightarrow> database" where
  "add_income_category name_input db =
     (let category_name = strip name_input
      in if category_name = [] then db
         else db\<lparr>income_categories := insert_category category_name (income_categories db)\<rparr>)"

text \<open>
  The \<open>while True\<close> loop that asks for a date until \<open>strptime\<close> accepts one. The
  answers are a list; running out of answers is \<open>None\<close>. The text is kept as typed.
\<close>

fun read_date :: "string list \<Rightarrow> string option" where
  "read_date [] = None"
| "read_date (date # later) =
     (case strptime_Ymd date of Some _ \<Rightarrow> Some date | None \<Rightarrow> read_date later)"

definition insert_entry :: "string \<Rightarrow> real \<Rightarrow> string \<Rightarrow> ledger_row list \<Rightarrow> ledger_row list" where
  "insert_entry cat amt date rows =
     rows @ [\<lparr>entry_id = next_id (map entry_id rows), category = cat, amount = amt,
              timestamp = date\<rparr>]"

text \<open>
  \<open>ExpenseManager.add_expense(amount)\<close>. Its prompts are parameters: the dates typed,
  the category name typed if the category table is empty, and the category id typed
  (\<open>None\<close> when \<open>int\<close> raises).
\<close>

definition add_expense ::
  "real \<Rightarrow> string list \<Rightarrow> string \<Rightarrow> int option \<Rightarrow> database \<Rightarrow> add_outcome \<times> database" where
  "add_expense amt dates new_category cat_choice db =
     (case read_date dates of
        None \<Rightarrow> (DateInputEnded, db)
      | Some date \<Rightarrow>
          (let db1 = (if expense_categories db = [] then add_expense_category new_category db
                      else db);
               categories = expense_categories db1
           in if categories = [] then (UnableWithoutCategory, db1)
              else (case cat_choice of
                      None \<Rightarrow> (InvalidNumber, db1)
                    | Some choice \<Rightarrow>
                        (case map_of categories choice of
                           None \<Rightarrow> (InvalidCategorySelection, db1)
                         | Some cat \<Rightarrow>
                             if cat = [] then (InvalidCategorySelection, db1)
                             else (EntryAdded,
                                   db1\<lparr>expenses := insert_entry cat amt date (expenses db1)\<rparr>)))))"

definition add_income ::
  "real \<Rightarrow> string list \<Rightarrow> string \<Rightarrow> int option \<Rightarrow> database \<Rightarrow> add_outcome \<times> database" where
  "add_income amt dates new_category cat_choice db =
     (case read_date dates of
        None \<Rightarrow> (DateInputEnded, db)
      | Some date \<Rightarrow>
          (let db1 = (if income_categories db = [] then add_income_category new_category db
                      else db);
               categories = income_categories db1
           in if categories = [] then (UnableWithoutCategory, db1)
              else (case cat_choice of
                      None \<Rightarrow> (InvalidNumber, db1)
                    | Some choice \<Rightarrow>
                        (case map_of categories choice of
                           None \<Rightarrow> (InvalidCategorySelection, db1)
                         | Some cat \<Rightarrow>
                             if cat = [] then (InvalidCategorySelection, db1)
                             else (EntryAdded,
                                   db1\<lparr>income := insert_entry cat amt date (income db1)\<rparr>)))))"

section \<open>BudgetManager\<close>

text \<open>The key of the constraint \<open>UNIQUE(category, month, year)\<close>.\<close>

definition triple :: "budget_row \<Rightarrow> string \<times> int \<times> int" where
  "triple b = (budget_category b, budget_month b, budget_year b)"

definition same_triple :: "string \<Rightarrow> int \<Rightarrow> int \<Rightarrow> budget_row \<Rightarrow> bool" where
  "same_triple cat month year b =
     (budget_category b = cat \<and> budget_month b = month \<and> budget_year b = year)"

text \<open>
  \<open>INSERT ... ON CONFLICT(category, month, year) DO UPDATE SET budget_amount =
  excluded.budget_amount\<close>.
\<close>

definition set_budget :: "string \<Rightarrow> real \<Rightarrow> int \<Rightarrow> int \<Rightarrow> database \<Rightarrow> database" where
  "set_budget cat amt month year db =
     (if list_ex (same_triple cat month year) (budget db)
      then db\<lparr>budget := map (\<lambda>b. if same_triple cat month year b
                                   then b\<lparr>budget_amount := amt\<rparr> else b) (budget db)\<rparr>
      else db\<lparr>budget := budget db @
                [\<lparr>budget_id = next_id (map budget_id (budget db)), budget_category = cat,
                  budget_amount = amt, budget_month = month, budget_year = year\<rparr>]\<rparr>)"

datatype standing = OverBudgetBy real | UnderBudgetBy real

datatype budget_view = NoBudgetSet | BudgetView real real standing

text \<open>
  \<open>BudgetManager.view_budget_for_category\<close>: the first budget row of the triple, then
  the expenses of the category whose timestamp text has the month at characters 6-7 and
  the year at characters 1-4. What it prints is returned: the budgeted amount, the total
  expenses, and by how much the total is over or under.
\<close>

definition view_budget_for_category :: "string \<Rightarrow> int \<Rightarrow> int \<Rightarrow> database \<Rightarrow> budget_view" where
  "view_budget_for_category cat month year db =
     (case filter (same_triple cat month year) (budget db) of
        [] \<Rightarrow> NoBudgetSet
      | b # _ \<Rightarrow>
          (let budgeted = budget_amount b;
               total_expenses =
                 sum_amount (filter (\<lambda>e. category e = cat
                                        \<and> substr (timestamp e) 6 2 = fmt_02d month
                                        \<and> substr (timestamp e) 1 4 = py_str year)
                               (expenses db))
           in BudgetView budgeted total_expenses
                (if total_expenses > budgeted then OverBudgetBy (total_expenses - budgeted)
                 else UnderBudgetBy (budgeted - total_expenses))))"

text \<open>The signed difference that the two printed forms stand for: spent minus budgeted.\<close>

fun delta :: "standing \<Rightarrow> real" where
  "delta (OverBudgetBy d) = d"
| "delta (UnderBudgetBy d) = - d"

text \<open>
  \<open>BudgetManager.calculate_overall_budget\<close>: total income, total expenses and their
  difference for the period.
\<close>

definition calculate_overall_budget :: "int \<Rightarrow> int \<Rightarrow> database \<Rightarrow> real \<times> real \<times> real" where
  "calculate_overall_budget month year db =
     (let total_income = sum_amount (filter (in_period month year) (income db));
          total_expenses = sum_amount (filter (in_period month year) (expenses db));
          net_budget = total_income - total_expenses
      in (total_income, total_expenses, net_budget))"

section \<open>GoalManager\<close>

datatype goal_outcome = InvalidTargetAmount | IncorrectDateFormat | GoalCreated

text \<open>
  \<open>GoalManager.create_goal\<close>: no sign check on the target amount; \<open>current_saved\<close>
  takes the column default 0.
\<close>

definition create_goal :: "string \<Rightarrow> real option \<Rightarrow> string \<Rightarrow> database \<Rightarrow> goal_outcome \<times> database" where
  "create_goal name target_input date db =
     (case target_input of
        None \<Rightarrow> (InvalidTargetAmount, db)
      | Some target \<Rightarrow>
          (case strptime_Ymd date of
             None \<Rightarrow> (IncorrectDateFormat, db)
           | Some _ \<Rightarrow>
               (GoalCreated,
                db\<lparr>savings_goals := savings_goals db @
                     [\<lparr>goal_id = next_id (map goal_id (savings_goals db)), goal_name = name,
                       target_amount = target, current_saved = 0, target_date = date\<rparr>]\<rparr>)))"

text \<open>\<open>UPDATE savings_goals SET current_saved = current_saved + ? WHERE id = ?\<close>\<close>

definition credit :: "real \<Rightarrow> int \<Rightarrow> savings_goal list \<Rightarrow> savings_goal list" where
  "credit amt gid goals =
     map (\<lambda>g. if goal_id g = gid then g\<lparr>current_saved := current_saved g + amt\<rparr> else g) goals"

text \<open>\<open>UPDATE savings_goals SET current_saved = current_saved - ? WHERE id = ?\<close>\<close>

definition debit :: "real \<Rightarrow> int \<Rightarrow> savings_goal list \<Rightarrow> savings_goal list" where
  "debit amt gid goals =
     map (\<lambda>g. if goal_id g = gid then g\<lparr>current_saved := current_saved g - amt\<rparr> else g) goals"

text \<open>\<open>SELECT current_saved FROM savings_goals WHERE id = ?\<close>, first row.\<close>

definition saved_of :: "int \<Rightarrow> database \<Rightarrow> real option" where
  "saved_of gid db =
     (case filter (\<lambda>g. goal_id g = gid) (savings_goals db) of
        [] \<Rightarrow> None
      | g # _ \<Rightarrow> Some (current_saved g))"

text \<open>\<open>SELECT COALESCE(SUM(current_saved), 0) FROM savings_goals\<close>\<close>

definition total_saved :: "database \<Rightarrow> real" where
  "total_saved db = sum_list (map current_saved (savings_goals db))"

subsection \<open>Adding excess income\<close>

text \<open>What the user types at an amount prompt: a number, or text \<open>float\<close> rejects.\<close>

datatype entry = Amount real | NotANumber

datatype excess_outcome =
    MonthOutOfRange
  | YearNotPositive
  | InvalidMonthYear
  | NoExcessIncome
  | NoGoalsFound
  | AmountInputEnded
  | SavingsUpdated

definition available_excess :: "int \<Rightarrow> int \<Rightarrow> database \<Rightarrow> real" where
  "available_excess month year db =
     (let total_income = sum_amount (filter (in_period month year) (income db));
          total_expenses = sum_amount (filter (in_period month year) (expenses db));
          allocated_excess = total_saved db
      in total_income - total_expenses - allocated_excess)"

text \<open>
  The inner \<open>while True\<close> loop for one goal: it asks again after text that is not a
  number, after a negative amount and after an amount above what is left, and returns
  the first amount it accepts with the answers not yet read.
\<close>

fun read_amount :: "real \<Rightarrow> entry list \<Rightarrow> (real \<times> entry list) option" where
  "read_amount avail [] = None"
| "read_amount avail (NotANumber # later) = read_amount avail later"
| "read_amount avail (Amount amt # later) =
     (if amt < 0 then read_amount avail later
      else if amt > avail then read_amount avail later
      else Some (amt, later))"

text \<open>
  The \<open>for goal in goals\<close> loop. \<open>allocations\<close> is the dict, kept as an association
  list in insertion order; \<open>avail\<close> is the variable \<open>available_excess\<close> that the loop
  decrements.
\<close>

fun collect_allocations ::
  "(int \<times> string) list \<Rightarrow> real \<Rightarrow> (int \<times> real) list \<Rightarrow> entry list \<Rightarrow> (int \<times> real) list option" where
  "collect_allocations [] avail allocations entries = Some allocations"
| "collect_allocations (goal # goals) avail allocations entries =
     (case read_amount avail entries of
        None \<Rightarrow> None
      | Some (amt, later) \<Rightarrow>
          if amt > 0
          then collect_allocations goals (avail - amt) (AList.update (fst goal) amt allocations) later
          else collect_allocations goals avail allocations later)"

text \<open>The final loop: one UPDATE per item of the dict.\<close>

definition apply_allocations :: "(int \<times> real) list \<Rightarrow> savings_goal list \<Rightarrow> savings_goal list" where
  "apply_allocations allocations goals = fold (\<lambda>(gid, amt). credit amt gid) allocations goals"

definition add_excess_income ::
  "int option \<Rightarrow> int option \<Rightarrow> entry list \<Rightarrow> database \<Rightarrow> excess_outcome \<times> database" where
  "add_excess_income month_input year_input entries db =
     (case month_input of
        None \<Rightarrow> (InvalidMonthYear, db)
      | Some month \<Rightarrow>
          if \<not> (1 \<le> month \<and> month \<le> 12) then (MonthOutOfRange, db)
          else (case year_input of
                  None \<Rightarrow> (InvalidMonthYear, db)
                | Some year \<Rightarrow>
                    if year \<le> 0 then (YearNotPositive, db)
                    else if available_excess month year db \<le> 0 then (NoExcessIncome, db)
                    else if savings_goals db = [] then (NoGoalsFound, db)
                    else (case collect_allocations
                                 (map (\<lambda>g. (goal_id g, goal_name g)) (savings_goals db))
                                 (available_excess month year db) [] entries of
                            None \<Rightarrow> (AmountInputEnded, db)
                          | Some allocations \<Rightarrow>
                              (SavingsUpdated,
                               db\<lparr>savings_goals :=
                                    apply_allocations allocations (savings_goals db)\<rparr>))))"

subsection \<open>The allocation rule as the specification words it\<close>

text \<open>
  The specification describes an allocation as an ordered sequence of amounts checked
  against one running counter of the remaining excess: an amount below zero or above
  the counter is rejected and the batch goes on, any other amount is accepted and
  taken off the counter. \<open>accepted remaining amounts\<close> is the list of the amounts that
  rule accepts, in order. \<open>offered\<close> is the sequence of amounts in what the user
  typed: the answers that are numbers.
\<close>

fun offered :: "entry list \<Rightarrow> real list" where
  "offered [] = []"
| "offered (Amount a # es) = a # offered es"
| "offered (NotANumber # es) = offered es"

fun accepted :: "real \<Rightarrow> real list \<Rightarrow> real list" where
  "accepted remaining [] = []"
| "accepted remaining (a # as) =
     (if a < 0 \<or> a > remaining then accepted remaining as
      else a # accepted (remaining - a) as)"

text \<open>The dict after the amounts of a list of (goal id, amount) pairs above zero are stored.\<close>

fun noted :: "(int \<times> real) list \<Rightarrow> (int \<times> real) list \<Rightarrow> (int \<times> real) list" where
  "noted allocations [] = allocations"
| "noted allocations ((gid, amt) # rest) =
     noted (if amt > 0 then AList.update gid amt allocations else allocations) rest"

text \<open>A goal with an amount added to what it has saved.\<close>

definition saved_more :: "savings_goal \<Rightarrow> real \<Rightarrow> savings_goal" where
  "saved_more g a = g\<lparr>current_saved := current_saved g + a\<rparr>"

subsection \<open>Removing or moving savings\<close>

datatype move_outcome =
    NoGoals
  | InvalidInput
  | GoalNotFound
  | CannotRemoveMoreThanSaved
  | AmountRemoved
  | InvalidGoalId
  | AmountTransferred
  | InvalidOption

text \<open>
  \<open>GoalManager.remove_or_move_savings\<close>. Its prompts are parameters: the goal id and
  the amount (\<open>None\<close> when \<open>int\<close> or \<open>float\<close> raises), the action typed, and the id of
  the goal to move to. A transfer is two UPDATE statements, the credit first.
\<close>

definition remove_or_move_savings ::
  "int option \<Rightarrow> real option \<Rightarrow> string \<Rightarrow> int option \<Rightarrow> database \<Rightarrow> move_outcome \<times> database" where
  "remove_or_move_savings goal_input amt_input action new_goal_input db =
     (if savings_goals db = [] then (NoGoals, db)
      else (case (goal_input, amt_input) of
              (Some gid, Some amt) \<Rightarrow>
                (case saved_of gid db of
                   None \<Rightarrow> (GoalNotFound, db)
                 | Some saved \<Rightarrow>
                     if amt > saved then (CannotRemoveMoreThanSaved, db)
                     else if action = ''1''
                     then (AmountRemoved, db\<lparr>savings_goals := debit amt gid (savings_goals db)\<rparr>)
                     else if action = ''2''
                     then (case new_goal_input of
                             None \<Rightarrow> (InvalidGoalId, db)
                           | Some new_gid \<Rightarrow>
                               (AmountTransferred,
                                db\<lparr>savings_goals :=
                                     debit amt gid (credit amt new_gid (savings_goals db))\<rparr>))
                     else (InvalidOption, db))
            | _ \<Rightarrow> (InvalidInput, db)))"

subsection \<open>Progress\<close>

text \<open>The percentage \<open>view_goal_progress\<close> prints for one goal.\<close>

definition progress :: "real \<Rightarrow> real \<Rightarrow> real" where
  "progress saved target = (if target > 0 then (saved / target) * 100 else 0)"

definition view_goal_progress :: "database \<Rightarrow> (string \<times> real \<times> real \<times> real \<times> string) list" where
  "view_goal_progress db =
     map (\<lambda>g. (goal_name g, current_saved g, target_amount g,
                progress (current_saved g) (target_amount g), target_date g))
       (savings_goals db)"

section \<open>Example runs\<close>

text \<open>
  States reached from the empty database through the operations above, used to run the
  results of the next sections on concrete inputs. \<open>march_ledger\<close>: an income of 1000
  on 2025-03-01 and an expense of 400 for Food on 2025-03-15. \<open>two_goals\<close>: two goals
  created on top of it. \<open>funded_goals\<close>: 200 and 10 of the March excess allocated to
  them.
\<close>

definition march_ledger :: database where
  "march_ledger =
     snd (add_expense 400 [''2025-03-15''] ''Food'' (Some 1)
       (snd (add_income 1000 [''2025-03-01''] ''Salary'' (Some 1) empty_database)))"

definition two_goals :: database where
  "two_goals =
     snd (create_goal ''Car'' (Some 5000) ''2026-01-01''
       (snd (create_goal ''Holiday'' (Some 1000) ''2025-12-31'' march_ledger)))"

definition funded_goals :: database where
  "funded_goals = snd (add_excess_income (Some 3) (Some 2025) [Amount 200, Amount 10] two_goals)"

text \<open>
  The same ledger with the two dates typed without the leading zero of the month,
  which \<open>strptime\<close> accepts.
\<close>

definition unpadded_ledger :: database where
  "unpadded_ledger =
     snd (add_expense 400 [''2025-3-15''] ''Food'' (Some 1)
       (snd (add_income 1000 [''2025-3-01''] ''Salary'' (Some 1) empty_database)))"

section \<open>Progress of a goal\<close>

text \<open>
  C9, as the code has it: the percentage is 0 for every target that is not above zero
  (zero and negative targets alike), and saved / target * 100 for a target above zero.
\<close>

theorem progress_guarded:
  "progress saved target = (if target \<le> 0 then 0 else saved / target * 100)"
  by (simp add: progress_def)

theorem progress_guarded_witness:
  "progress 50 200 = 25 \<and> progress 50 0 = 0 \<and> progress 50 (- 100) = 0"
  using progress_guarded [of 50 200] progress_guarded [of 50 0] progress_guarded [of 50 "- 100"]
  by simp

text \<open>
  C9 as the spec words it fails for a negative target: the goal with 50 saved towards a
  target of -100 is shown at 0 percent, while 50 / (-100) * 100 is -50.
\<close>

theorem progress_negative_target_counterexample:
  "(- 100 :: real) \<noteq> 0 \<and> progress 50 (- 100) \<noteq> 50 / (- 100) * 100"
  by (simp add: progress_def)

section \<open>Allocating excess income\<close>

text \<open>
  The loops of \<open>add_excess_income\<close> against the rule \<open>accepted\<close>: the prompt for one
  goal returns the first amount the rule accepts and leaves the rule to go on with what
  is left of the counter.
\<close>

lemma read_amount_accepted:
  "(case read_amount avail es of
      None \<Rightarrow> accepted avail (offered es) = []
    | Some (a, es') \<Rightarrow> 0 \<le> a \<and> a \<le> avail \<and> accepted avail (offered es) = a # accepted (avail - a) (offered es'))"
proof (induction es)
  case Nil
  show ?case by simp
next
  case (Cons e es)
  show ?case
  proof (cases e)
    case (Amount amt)
    with Cons show ?thesis by (cases "amt < 0"; cases "amt > avail") (auto split: option.splits)
  next
    case NotANumber
    with Cons show ?thesis by (auto split: option.splits)
  qed
qed

lemma collect_allocations_accepted:
  "collect_allocations goals avail allocs es =
     (if length goals \<le> length (accepted avail (offered es))
      then Some (noted allocs (zip (map fst goals) (accepted avail (offered es))))
      else None)"
proof (induction goals arbitrary: avail allocs es)
  case Nil
  show ?case by simp
next
  case (Cons g gs)
  show ?case
  proof (cases "read_amount avail es")
    case None
    with read_amount_accepted [of avail es] show ?thesis by simp
  next
    case (Some p)
    obtain a es' where p: "p = (a, es')" by (cases p)
    from Some p read_amount_accepted [of avail es]
    have a: "0 \<le> a" and acc: "accepted avail (offered es) = a # accepted (avail - a) (offered es')"
      by simp_all
    show ?thesis
    proof (cases "a > 0")
      case True
      with Some p acc Cons.IH [of "avail - a" "AList.update (fst g) a allocs" es']
      show ?thesis by simp
    next
      case False
      with a have "a = 0" by simp
      with Some p acc Cons.IH [of avail allocs es']
      show ?thesis by simp
    qed
  qed
qed

lemma accepted_nonneg: "a \<in> set (accepted r xs) \<Longrightarrow> 0 \<le> a"
  by (induction r xs rule: accepted.induct) (auto split: if_splits)

lemma accepted_all_nonneg: "list_all (\<lambda>a. 0 \<le> a) (accepted r xs)"
  by (induction r xs rule: accepted.induct) auto





text \<open>
  With distinct goal ids the dict holds the amounts above zero in goal order, and the
  final loop of updates adds to each goal its own amount.
\<close>

lemma update_fresh: "k \<notin> fst ` set d \<Longrightarrow> AList.update k v d = d @ [(k, v)]"
  by (induction d) auto

lemma noted_distinct:
  "distinct (map fst xs) \<Longrightarrow> fst ` set d \<inter> fst ` set xs = {} \<Longrightarrow>
   noted d xs = d @ filter (\<lambda>(k, a). a > 0) xs"
proof (induction xs arbitrary: d)
  case Nil
  show ?case by simp
next
  case (Cons x xs)
  obtain k a where x: "x = (k, a)" by (cases x)
  from Cons.prems x have k: "k \<notin> fst ` set d" and kx: "k \<notin> fst ` set xs"
    and dx: "distinct (map fst xs)" and disj: "fst ` set d \<inter> fst ` set xs = {}"
    by auto
  show ?case
  proof (cases "a > 0")
    case True
    from k have u: "AList.update k a d = d @ [(k, a)]" by (rule update_fresh)
    from kx disj have "fst ` set (d @ [(k, a)]) \<inter> fst ` set xs = {}" by auto
    from Cons.IH [OF dx this] True x u show ?thesis by simp
  next
    case False
    with Cons.IH [OF dx disj] x show ?thesis by simp
  qed
qed

lemma apply_allocations_Cons:
  "apply_allocations ((k, a) # xs) goals = apply_allocations xs (credit a k goals)"
  by (simp add: apply_allocations_def)

lemma apply_allocations_Nil: "apply_allocations [] goals = goals"
  by (simp add: apply_allocations_def)

lemma credit_other:
  "gid \<notin> goal_id ` set goals \<Longrightarrow> credit a gid goals = goals"
  by (induction goals) (auto simp: credit_def)

lemma credit_Cons:
  "credit a gid (g # gs) = (if goal_id g = gid then saved_more g a else g) # credit a gid gs"
  by (simp add: credit_def saved_more_def)

lemma apply_allocations_head:
  "goal_id g \<notin> fst ` set xs \<Longrightarrow>
   apply_allocations xs (g # gs) = g # apply_allocations xs gs"
proof (induction xs arbitrary: gs)
  case Nil
  show ?case by (simp add: apply_allocations_Nil)
next
  case (Cons x xs)
  obtain k a where x: "x = (k, a)" by (cases x)
  with Cons.prems have "goal_id g \<noteq> k" "goal_id g \<notin> fst ` set xs" by auto
  with Cons.IH [of "credit a k gs"] x show ?case
    by (simp add: apply_allocations_Cons credit_Cons)
qed

lemma apply_allocations_zip:
  "distinct (map goal_id goals) \<Longrightarrow> length amts = length goals \<Longrightarrow>
   \<forall>a \<in> set amts. 0 \<le> a \<Longrightarrow>
   apply_allocations (filter (\<lambda>(k, a). a > 0) (zip (map goal_id goals) amts)) goals
     = map2 saved_more goals amts"
proof (induction goals arbitrary: amts)
  case Nil
  then show ?case by (simp add: apply_allocations_Nil)
next
  case (Cons g gs)
  then obtain a as where amts: "amts = a # as" by (cases amts) auto
  let ?rest = "filter (\<lambda>(k, a). a > 0) (zip (map goal_id gs) as)"
  from Cons.prems amts have fresh: "goal_id g \<notin> goal_id ` set gs" and d: "distinct (map goal_id gs)"
    and len: "length as = length gs" and nn: "\<forall>a \<in> set as. 0 \<le> a" and a: "0 \<le> a"
    by auto
  have keys: "fst ` set ?rest \<subseteq> goal_id ` set gs"
    by (auto dest: set_zip_leftD)
  with fresh have nk: "goal_id g \<notin> fst ` set ?rest" by auto
  have IH: "apply_allocations ?rest gs = map2 saved_more gs as"
    by (rule Cons.IH [OF d len nn])
  show ?case
  proof (cases "a > 0")
    case True
    have "apply_allocations (filter (\<lambda>(k, a). a > 0) (zip (map goal_id (g # gs)) amts)) (g # gs)
          = apply_allocations ?rest (credit a (goal_id g) (g # gs))"
      using True amts by (simp add: apply_allocations_Cons)
    also have "credit a (goal_id g) (g # gs) = saved_more g a # gs"
      using fresh by (simp add: credit_Cons credit_other)
    also have "apply_allocations ?rest (saved_more g a # gs) = saved_more g a # apply_allocations ?rest gs"
      using nk by (intro apply_allocations_head) (simp add: saved_more_def)
    finally show ?thesis using IH amts by simp
  next
    case False
    with a have a0: "a = 0" by simp
    have "apply_allocations (filter (\<lambda>(k, a). a > 0) (zip (map goal_id (g # gs)) amts)) (g # gs)
          = apply_allocations ?rest (g # gs)"
      using a0 amts by simp
    also have "\<dots> = g # apply_allocations ?rest gs"
      using nk by (rule apply_allocations_head)
    finally show ?thesis using IH amts a0 by (simp add: saved_more_def)
  qed
qed

lemma zip_take_right: "zip xs ys = zip xs (take (length xs) ys)"
proof (induction xs arbitrary: ys)
  case Nil
  show ?case by simp
next
  case (Cons x xs)
  then show ?case by (cases ys) auto
qed

lemma allocations_of_accepted:
  assumes d: "distinct (map goal_id goals)"
    and enough: "length goals \<le> length (accepted E (offered es))"
  shows "apply_allocations (noted [] (zip (map goal_id goals) (accepted E (offered es)))) goals
           = map2 saved_more goals (accepted E (offered es))"
proof -
  let ?acc = "take (length goals) (accepted E (offered es))"
  have z: "zip (map goal_id goals) (accepted E (offered es)) = zip (map goal_id goals) ?acc"
    using zip_take_right [of "map goal_id goals" "accepted E (offered es)"] by simp
  have z2: "zip goals (accepted E (offered es)) = zip goals ?acc"
    by (rule zip_take_right)
  have len: "length ?acc = length goals" using enough by simp
  have nn: "\<forall>a \<in> set ?acc. 0 \<le> a"
    by (auto dest: in_set_takeD accepted_nonneg)
  have "map fst (zip (map goal_id goals) ?acc) = map goal_id goals"
    using len by (simp add: map_fst_zip)
  with d have dz: "distinct (map fst (zip (map goal_id goals) ?acc))" by simp
  have "noted [] (zip (map goal_id goals) ?acc)
          = filter (\<lambda>(k, a). a > 0) (zip (map goal_id goals) ?acc)"
    using noted_distinct [OF dz, of "[]"] by simp
  with z z2 apply_allocations_zip [OF d len nn] show ?thesis by simp
qed

lemma add_excess_income_result:
  assumes m: "1 \<le> month" "month \<le> 12" and y: "0 < year"
    and E: "0 < available_excess month year db"
    and ne: "savings_goals db \<noteq> []"
    and d: "distinct (map goal_id (savings_goals db))"
  shows "add_excess_income (Some month) (Some year) es db =
     (if length (savings_goals db) \<le> length (accepted (available_excess month year db) (offered es))
      then (SavingsUpdated,
            db\<lparr>savings_goals := map2 saved_more (savings_goals db)
                                   (accepted (available_excess month year db) (offered es))\<rparr>)
      else (AmountInputEnded, db))"
proof -
  have ids: "map fst (map (\<lambda>g. (goal_id g, goal_name g)) (savings_goals db)) = map goal_id (savings_goals db)"
    by simp
  show ?thesis
    using m y E ne allocations_of_accepted [OF d]
    by (simp add: add_excess_income_def collect_allocations_accepted ids del: map_map)
qed

lemma add_excess_income_unchanged:
  "add_excess_income month_input year_input es db = (out, db') \<Longrightarrow> out \<noteq> SavingsUpdated \<Longrightarrow> db' = db"
  by (auto simp: add_excess_income_def split: option.splits if_splits)

lemma add_excess_income_cases:
  "add_excess_income month_input year_input es db = (out, db') \<Longrightarrow>
   (out \<noteq> SavingsUpdated \<and> db' = db)
   \<or> (\<exists>month year al. out = SavingsUpdated \<and> month_input = Some month \<and> year_input = Some year
        \<and> 1 \<le> month \<and> month \<le> 12 \<and> 0 < year \<and> 0 < available_excess month year db
        \<and> savings_goals db \<noteq> []
        \<and> db' = db\<lparr>savings_goals := apply_allocations al (savings_goals db)\<rparr>)"
  by (auto simp: add_excess_income_def split: option.splits if_splits)

lemma credit_fields:
  "map goal_id (credit a k goals) = map goal_id goals"
  "map goal_name (credit a k goals) = map goal_name goals"
  "map target_amount (credit a k goals) = map target_amount goals"
  "map target_date (credit a k goals) = map target_date goals"
  by (induction goals) (auto simp: credit_def)

lemma apply_allocations_fields:
  "map goal_id (apply_allocations al goals) = map goal_id goals
   \<and> map goal_name (apply_allocations al goals) = map goal_name goals
   \<and> map target_amount (apply_allocations al goals) = map target_amount goals
   \<and> map target_date (apply_allocations al goals) = map target_date goals"
proof (induction al arbitrary: goals)
  case Nil
  show ?case by (simp add: apply_allocations_Nil)
next
  case (Cons x al)
  obtain k a where x: "x = (k, a)" by (cases x)
  from Cons [of "credit a k goals"] x show ?case
    by (simp add: apply_allocations_Cons credit_fields)
qed

text \<open>The example states, evaluated.\<close>

lemma two_goals_rows:
  "savings_goals two_goals =
     [\<lparr>goal_id = 1, goal_name = ''Holiday'', target_amount = 1000, current_saved = 0,
        target_date = ''2025-12-31''\<rparr>,
      \<lparr>goal_id = 2, goal_name = ''Car'', target_amount = 5000, current_saved = 0,
        target_date = ''2026-01-01''\<rparr>]"
  by code_simp

lemma two_goals_excess: "available_excess 3 2025 two_goals = 600"
  by code_simp




text \<open>
  C10. Whatever the answers, \<open>add_excess_income\<close> leaves the expense, income, budget and
  category tables as they were, and the id, name, target amount and target date of every
  goal. With distinct goal ids, a goal whose \<open>current_saved\<close> differs afterwards is one
  whose accepted amount is above zero, and the difference is that amount; so a goal
  that was skipped with 0 keeps what it had.
\<close>

theorem add_excess_income_frame:
  assumes run: "add_excess_income month_input year_input es db = (out, db')"
  shows "expenses db' = expenses db \<and> income db' = income db \<and> budget db' = budget db
     \<and> expense_categories db' = expense_categories db
     \<and> income_categories db' = income_categories db
     \<and> map goal_id (savings_goals db') = map goal_id (savings_goals db)
     \<and> map goal_name (savings_goals db') = map goal_name (savings_goals db)
     \<and> map target_amount (savings_goals db') = map target_amount (savings_goals db)
     \<and> map target_date (savings_goals db') = map target_date (savings_goals db)
     \<and> (distinct (map goal_id (savings_goals db)) \<longrightarrow>
          (\<forall>i < length (savings_goals db).
              current_saved (savings_goals db' ! i) \<noteq> current_saved (savings_goals db ! i) \<longrightarrow>
                (\<exists>month year. month_input = Some month \<and> year_input = Some year
                   \<and> i < length (accepted (available_excess month year db) (offered es))
                   \<and> 0 < accepted (available_excess month year db) (offered es) ! i
                   \<and> current_saved (savings_goals db' ! i)
                       = current_saved (savings_goals db ! i)
                         + accepted (available_excess month year db) (offered es) ! i)))"
proof -
  from add_excess_income_cases [OF run]
  have fields: "expenses db' = expenses db \<and> income db' = income db \<and> budget db' = budget db
     \<and> expense_categories db' = expense_categories db
     \<and> income_categories db' = income_categories db
     \<and> map goal_id (savings_goals db') = map goal_id (savings_goals db)
     \<and> map goal_name (savings_goals db') = map goal_name (savings_goals db)
     \<and> map target_amount (savings_goals db') = map target_amount (savings_goals db)
     \<and> map target_date (savings_goals db') = map target_date (savings_goals db)"
    using apply_allocations_fields by auto
  have changed: "\<exists>month year. month_input = Some month \<and> year_input = Some year
                   \<and> i < length (accepted (available_excess month year db) (offered es))
                   \<and> 0 < accepted (available_excess month year db) (offered es) ! i
                   \<and> current_saved (savings_goals db' ! i)
                       = current_saved (savings_goals db ! i)
                         + accepted (available_excess month year db) (offered es) ! i"
    if d: "distinct (map goal_id (savings_goals db))" and i: "i < length (savings_goals db)"
      and ch: "current_saved (savings_goals db' ! i) \<noteq> current_saved (savings_goals db ! i)"
    for i
  proof -
    from add_excess_income_cases [OF run] ch
    obtain month year where in1: "month_input = Some month" "year_input = Some year"
      and out: "out = SavingsUpdated"
      and ok: "1 \<le> month" "month \<le> 12" "0 < year" "0 < available_excess month year db"
        "savings_goals db \<noteq> []"
      by auto
    let ?acc = "accepted (available_excess month year db) (offered es)"
    from add_excess_income_result [OF ok(1) ok(2) ok(3) ok(4) ok(5) d, of es] run in1 out
    have len: "length (savings_goals db) \<le> length ?acc"
      and db': "db' = db\<lparr>savings_goals := map2 saved_more (savings_goals db) ?acc\<rparr>"
      by (auto split: if_splits)
    from i len have i2: "i < length ?acc" by simp
    from db' i i2 have nth: "savings_goals db' ! i = saved_more (savings_goals db ! i) (?acc ! i)"
      by simp
    have "0 \<le> ?acc ! i" using i2 by (intro accepted_nonneg [of _ "available_excess month year db" "offered es"]) simp
    moreover from ch nth have "?acc ! i \<noteq> 0" by (auto simp: saved_more_def)
    ultimately have pos: "0 < ?acc ! i" by simp
    from nth have "current_saved (savings_goals db' ! i) = current_saved (savings_goals db ! i) + ?acc ! i"
      by (simp add: saved_more_def)
    with in1 i2 pos show ?thesis by blast
  qed
  from fields changed show ?thesis by blast
qed

theorem add_excess_income_frame_witness:
  "add_excess_income (Some 3) (Some 2025) [Amount 0, Amount 250] two_goals
     = (SavingsUpdated,
        two_goals\<lparr>savings_goals :=
            [\<lparr>goal_id = 1, goal_name = ''Holiday'', target_amount = 1000, current_saved = 0,
               target_date = ''2025-12-31''\<rparr>,
             \<lparr>goal_id = 2, goal_name = ''Car'', target_amount = 5000, current_saved = 250,
               target_date = ''2026-01-01''\<rparr>]\<rparr>)
   \<and> distinct (map goal_id (savings_goals two_goals))
   \<and> expenses (snd (add_excess_income (Some 3) (Some 2025) [Amount 0, Amount 250] two_goals))
       = expenses two_goals
   \<and> map goal_name (savings_goals
         (snd (add_excess_income (Some 3) (Some 2025) [Amount 0, Amount 250] two_goals)))
       = map goal_name (savings_goals two_goals)
   \<and> accepted (available_excess 3 2025 two_goals) (offered [Amount 0, Amount 250]) = [0, 250]"
proof -
  have run: "add_excess_income (Some 3) (Some 2025) [Amount 0, Amount 250] two_goals
     = (SavingsUpdated,
        two_goals\<lparr>savings_goals :=
            [\<lparr>goal_id = 1, goal_name = ''Holiday'', target_amount = 1000, current_saved = 0,
               target_date = ''2025-12-31''\<rparr>,
             \<lparr>goal_id = 2, goal_name = ''Car'', target_amount = 5000, current_saved = 250,
               target_date = ''2026-01-01''\<rparr>]\<rparr>)"
    by code_simp
  have d: "distinct (map goal_id (savings_goals two_goals))"
    by (simp add: two_goals_rows)
  from add_excess_income_frame [OF run] d run two_goals_excess show ?thesis
    by simp
qed

text \<open>
  An allocation never lowers a goal: goals that were at or above zero stay so.
\<close>

lemma add_excess_income_nonneg:
  assumes d: "distinct (map goal_id (savings_goals db))"
    and inv: "list_all (\<lambda>g. 0 \<le> current_saved g) (savings_goals db)"
  shows "list_all (\<lambda>g. 0 \<le> current_saved g)
           (savings_goals (snd (add_excess_income month_input year_input es db)))"
proof -
  obtain out db' where run: "add_excess_income month_input year_input es db = (out, db')"
    by (cases "add_excess_income month_input year_input es db")
  show ?thesis
  proof (cases "out = SavingsUpdated")
    case False
    with add_excess_income_cases [OF run] inv run show ?thesis by auto
  next
    case True
    with add_excess_income_cases [OF run]
    obtain month year where in1: "month_input = Some month" "year_input = Some year"
      and ok: "1 \<le> month" "month \<le> 12" "0 < year" "0 < available_excess month year db"
        "savings_goals db \<noteq> []"
      by auto
    let ?acc = "accepted (available_excess month year db) (offered es)"
    from add_excess_income_result [OF ok(1) ok(2) ok(3) ok(4) ok(5) d, of es] run in1 True
    have db': "db' = db\<lparr>savings_goals := map2 saved_more (savings_goals db) ?acc\<rparr>"
      by (auto split: if_splits)
    have "list_all (\<lambda>g. 0 \<le> current_saved g) (map2 saved_more gs as)"
      if "list_all (\<lambda>g. 0 \<le> current_saved g) gs" "list_all (\<lambda>a. 0 \<le> a) as" for gs as
      using that
    proof (induction gs arbitrary: as)
      case Nil
      show ?case by simp
    next
      case (Cons g gs)
      then show ?case by (cases as) (auto simp: saved_more_def)
    qed
    from this [OF inv accepted_all_nonneg] db' run show ?thesis by simp
  qed
qed

section \<open>Removing and moving savings\<close>







lemma ids_debit: "map goal_id (debit a k goals) = map goal_id goals"
  by (simp add: debit_def comp_def if_distrib)






text \<open>
  C2 asks that a transfer to a goal that does not exist fail and change nothing. The
  code does not look the destination up: the credit updates no row, the debit is applied,
  and the run reports success. From the goals holding 200 and 10, moving 50 from goal 1
  to the missing goal 99 leaves 150 and 10: the total drops from 210 to 160.
\<close>

theorem transfer_to_missing_goal:
  "saved_of 99 funded_goals = None
   \<and> remove_or_move_savings (Some 1) (Some 50) ''2'' (Some 99) funded_goals
       = (AmountTransferred,
          funded_goals\<lparr>savings_goals :=
            [\<lparr>goal_id = 1, goal_name = ''Holiday'', target_amount = 1000, current_saved = 150,
               target_date = ''2025-12-31''\<rparr>,
             \<lparr>goal_id = 2, goal_name = ''Car'', target_amount = 5000, current_saved = 10,
               target_date = ''2026-01-01''\<rparr>]\<rparr>)
   \<and> total_saved funded_goals = 210
   \<and> total_saved (snd (remove_or_move_savings (Some 1) (Some 50) ''2'' (Some 99) funded_goals)) = 160"
  by code_simp

text \<open>
  C4 asks that \<open>current_saved\<close> stay at or above zero under any amount typed. The only
  check of a removal or transfer is that the amount is not above what the source holds,
  which every negative amount passes. From the goals holding 200 and 10, moving -50 from
  goal 1 to goal 2 leaves goal 1 at 250 and goal 2 at -40.
\<close>

theorem transfer_negative_amount:
  "saved_of 1 funded_goals = Some 200 \<and> saved_of 2 funded_goals = Some 10
   \<and> fst (remove_or_move_savings (Some 1) (Some (- 50)) ''2'' (Some 2) funded_goals)
       = AmountTransferred
   \<and> saved_of 1 (snd (remove_or_move_savings (Some 1) (Some (- 50)) ''2'' (Some 2) funded_goals))
       = Some 250
   \<and> saved_of 2 (snd (remove_or_move_savings (Some 1) (Some (- 50)) ''2'' (Some 2) funded_goals))
       = Some (- 40)"
  by code_simp

text \<open>
  With an amount that is not negative, a removal or a transfer keeps every goal at or
  above zero.
\<close>

lemma remove_or_move_savings_nonneg:
  assumes d: "distinct (map goal_id (savings_goals db))"
    and inv: "list_all (\<lambda>g. 0 \<le> current_saved g) (savings_goals db)"
    and amt: "amt_input = Some amt" "0 \<le> amt"
  shows "list_all (\<lambda>g. 0 \<le> current_saved g)
           (savings_goals (snd (remove_or_move_savings goal_input amt_input action new_goal_input db)))"
proof -
  have cr: "list_all (\<lambda>g. 0 \<le> current_saved g) (credit amt k goals)"
    if "list_all (\<lambda>g. 0 \<le> current_saved g) goals" for k goals
    using that amt(2) by (induction goals) (auto simp: credit_def)
  have de: "list_all (\<lambda>g. 0 \<le> current_saved g) (debit amt k goals)"
    if "list_all (\<lambda>g. 0 \<le> current_saved g) goals"
      and "\<forall>g \<in> set goals. goal_id g = k \<longrightarrow> amt \<le> current_saved g" for k goals
    using that by (induction goals) (auto simp: debit_def)
  have only: "\<forall>g \<in> set (savings_goals db). goal_id g = gid \<longrightarrow> amt \<le> current_saved g"
    if s: "saved_of gid db = Some saved" and le: "amt \<le> saved" for gid saved
  proof -
    have "\<forall>g \<in> set goals. goal_id g = gid \<longrightarrow> filter (\<lambda>g. goal_id g = gid) goals = [g]"
      if "distinct (map goal_id goals)" for goals
      using that
    proof (induction goals)
      case Nil
      show ?case by simp
    next
      case (Cons h hs)
      from Cons.prems have "goal_id h \<notin> goal_id ` set hs" by simp
      then have "\<forall>g \<in> set hs. goal_id g \<noteq> goal_id h" by (metis imageI)
      then have "goal_id h = gid \<Longrightarrow> filter (\<lambda>g. goal_id g = gid) hs = []"
        by (simp add: filter_empty_conv)
      with Cons show ?case by auto
    qed
    from this [OF d] s le show ?thesis by (auto simp: saved_of_def)
  qed
  have only': "\<forall>g \<in> set (credit amt k (savings_goals db)). goal_id g = gid \<longrightarrow> amt \<le> current_saved g"
    if s: "saved_of gid db = Some saved" and le: "amt \<le> saved" for gid saved k
    using only [OF s le] amt(2) by (auto simp: credit_def)
  show ?thesis
    using inv amt cr de only only'
    by (auto simp: remove_or_move_savings_def split: option.splits)
qed

section \<open>Budgets and periods\<close>

lemma filter_same_le1:
  "distinct (map triple rows) \<Longrightarrow> length (filter (\<lambda>b. triple b = t) rows) \<le> 1"
proof (induction rows)
  case Nil
  show ?case by simp
next
  case (Cons r rows)
  from Cons.prems have "triple r \<notin> triple ` set rows" by simp
  then have "\<forall>b \<in> set rows. triple b \<noteq> triple r" by (metis imageI)
  then have "triple r = t \<Longrightarrow> filter (\<lambda>b. triple b = t) rows = []"
    by (simp add: filter_empty_conv)
  with Cons show ?case by auto
qed

lemma same_triple_iff: "same_triple c m y b \<longleftrightarrow> triple b = (c, m, y)"
  by (auto simp: same_triple_def triple_def)

lemma set_budget_once:
  assumes d: "distinct (map triple (budget db))"
  shows "map budget_amount (filter (same_triple c m y) (budget (set_budget c A m y db))) = [A]
     \<and> distinct (map triple (budget (set_budget c A m y db)))
     \<and> filter (\<lambda>b. \<not> same_triple c m y b) (budget (set_budget c A m y db))
         = filter (\<lambda>b. \<not> same_triple c m y b) (budget db)"
proof (cases "list_ex (same_triple c m y) (budget db)")
  case True
  let ?upd = "\<lambda>b. if same_triple c m y b then b\<lparr>budget_amount := A\<rparr> else b"
  have b: "budget (set_budget c A m y db) = map ?upd (budget db)"
    using True by (simp add: set_budget_def)
  have keep: "same_triple c m y (?upd r) = same_triple c m y r" for r
    by (simp add: same_triple_def)
  have f: "filter (same_triple c m y) (map ?upd rows)
             = map (\<lambda>b. b\<lparr>budget_amount := A\<rparr>) (filter (same_triple c m y) rows)" for rows
    by (induction rows) (auto simp: same_triple_def)
  have g: "filter (\<lambda>b. \<not> same_triple c m y b) (map ?upd rows)
             = filter (\<lambda>b. \<not> same_triple c m y b) rows" for rows
    by (induction rows) (auto simp: same_triple_def)
  have "map triple (map ?upd rows) = map triple rows" for rows
    by (induction rows) (auto simp: triple_def)
  with d have dt: "distinct (map triple (map ?upd (budget db)))" by (simp only:)
  from True have "filter (same_triple c m y) (budget db) \<noteq> []"
    by (auto simp: list_ex_iff filter_empty_conv)
  moreover have "length (filter (same_triple c m y) (budget db)) \<le> 1"
    using filter_same_le1 [OF d, of "(c, m, y)"] by (simp add: same_triple_iff [abs_def])
  ultimately obtain r where "filter (same_triple c m y) (budget db) = [r]"
    by (cases "filter (same_triple c m y) (budget db)") auto
  with b f g dt show ?thesis by simp
next
  case False
  then have none: "filter (same_triple c m y) (budget db) = []"
    by (auto simp: list_ex_iff filter_empty_conv)
  then have "(c, m, y) \<notin> set (map triple (budget db))"
    by (auto simp: filter_empty_conv same_triple_iff)
  moreover have "filter (\<lambda>b. \<not> same_triple c m y b) (budget db) = budget db"
    using none by (auto simp: filter_empty_conv filter_id_conv)
  ultimately show ?thesis
    using False d none by (simp add: set_budget_def same_triple_def triple_def)
qed

text \<open>
  C8. On a budget table that respects its UNIQUE constraint, \<open>set_budget c A m y\<close>
  followed by \<open>set_budget c B m y\<close> leaves exactly one row for the triple, with amount
  \<open>B\<close>; the table still respects the constraint and the rows of other triples are
  untouched.
\<close>

theorem set_budget_upsert:
  assumes d: "distinct (map triple (budget db))"
  shows "map budget_amount
           (filter (same_triple c m y) (budget (set_budget c B m y (set_budget c A m y db)))) = [B]
     \<and> distinct (map triple (budget (set_budget c B m y (set_budget c A m y db))))
     \<and> filter (\<lambda>b. \<not> same_triple c m y b) (budget (set_budget c B m y (set_budget c A m y db)))
         = filter (\<lambda>b. \<not> same_triple c m y b) (budget db)"
proof -
  from set_budget_once [OF d, of c m y A]
  have d1: "distinct (map triple (budget (set_budget c A m y db)))"
    and k1: "filter (\<lambda>b. \<not> same_triple c m y b) (budget (set_budget c A m y db))
         = filter (\<lambda>b. \<not> same_triple c m y b) (budget db)"
    by simp_all
  from set_budget_once [OF d1, of c m y B] k1 show ?thesis by simp
qed

theorem set_budget_upsert_witness:
  "distinct (map triple (budget march_ledger))
   \<and> map budget_amount
       (filter (same_triple ''Food'' 3 2025)
          (budget (set_budget ''Food'' 150 3 2025 (set_budget ''Food'' 100 3 2025 march_ledger))))
       = [150]
   \<and> length (budget (set_budget ''Food'' 150 3 2025 (set_budget ''Food'' 100 3 2025 march_ledger))) = 1"
proof -
  have b: "budget march_ledger = []" by code_simp
  then have d: "distinct (map triple (budget march_ledger))" by simp
  have l: "length (budget (set_budget ''Food'' 150 3 2025 (set_budget ''Food'' 100 3 2025 march_ledger))) = 1"
    by code_simp
  from set_budget_upsert [OF d, of "''Food''" 3 2025 150 100] d l show ?thesis by simp
qed

subsection \<open>Dates typed with their leading zeros\<close>

text \<open>
  For a timestamp in the padded form both period filters, the \<open>strftime\<close> one and the
  \<open>SUBSTR\<close> one, select a row exactly when its calendar date is in the month and year
  asked for (months 1 to 12, years from 1000 on, where \<open>str(year)\<close> has four digits).
\<close>

lemma digit_cases:
  "is_digit c \<longleftrightarrow> c = CHR ''0'' \<or> c = CHR ''1'' \<or> c = CHR ''2'' \<or> c = CHR ''3'' \<or> c = CHR ''4''
     \<or> c = CHR ''5'' \<or> c = CHR ''6'' \<or> c = CHR ''7'' \<or> c = CHR ''8'' \<or> c = CHR ''9''"
  by (auto simp: is_digit_def)

lemma digit_val_lt: "digit_val c < 10"
  by (simp add: digit_val_def)

lemma digit_char_val: "is_digit c \<Longrightarrow> digit_char (digit_val c) = c"
  by (auto simp: digit_cases digit_val_def digit_char_def)

lemma digit_val_char: "digit_val (digit_char k) = k mod 10"
proof -
  have "r = 0 \<or> r = 1 \<or> r = 2 \<or> r = 3 \<or> r = 4 \<or> r = 5 \<or> r = 6 \<or> r = 7 \<or> r = 8 \<or> r = 9"
    if "r < 10" for r :: nat
    using that by arith
  from this [of "k mod 10"]
  have "k mod 10 = 0 \<or> k mod 10 = 1 \<or> k mod 10 = 2 \<or> k mod 10 = 3 \<or> k mod 10 = 4
      \<or> k mod 10 = 5 \<or> k mod 10 = 6 \<or> k mod 10 = 7 \<or> k mod 10 = 8 \<or> k mod 10 = 9"
    by simp
  then show ?thesis
    by (elim disjE) (simp_all add: digit_val_def digit_char_def)
qed

lemma digit_val_zero: "is_digit c \<Longrightarrow> digit_val c = 0 \<Longrightarrow> c = CHR ''0''"
  by (auto simp: digit_cases digit_val_def)

lemma py_int_snoc: "py_int (s @ [c]) = 10 * py_int s + digit_val c"
  by (simp add: py_int_def)

lemma py_int_str_nat: "py_int (str_nat n) = n"
proof (induction n rule: str_nat.induct)
  case (1 n)
  show ?case
  proof (cases "n < 10")
    case True
    then show ?thesis
      by (subst str_nat.simps) (simp add: py_int_def digit_val_char)
  next
    case False
    with 1 have "py_int (str_nat (n div 10)) = n div 10" by simp
    with False show ?thesis
      by (subst str_nat.simps) (simp add: py_int_snoc digit_val_char)
  qed
qed

lemma str_nat_digit: "v < 10 \<Longrightarrow> str_nat v = [digit_char v]"
  by (subst str_nat.simps) simp

lemma str_nat_step: "v < 10 \<Longrightarrow> 0 < n \<Longrightarrow> str_nat (10 * n + v) = str_nat n @ [digit_char v]"
proof -
  assume v: "v < 10" and n: "0 < n"
  then have "\<not> 10 * n + v < 10" by simp
  moreover from v have "(10 * n + v) div 10 = n" by simp
  moreover have "digit_char (10 * n + v) = digit_char v"
    using v by (simp add: digit_char_def)
  ultimately show ?thesis
    by (subst str_nat.simps) simp
qed

lemma str_nat_py_int:
  "list_all is_digit ds \<Longrightarrow> ds \<noteq> [] \<Longrightarrow> hd ds \<noteq> CHR ''0'' \<Longrightarrow>
   str_nat (py_int ds) = ds \<and> 0 < py_int ds"
proof (induction ds rule: rev_induct)
  case Nil
  then show ?case by simp
next
  case (snoc c ds)
  from snoc.prems have c: "is_digit c" and ds: "list_all is_digit ds" by simp_all
  show ?case
  proof (cases "ds = []")
    case True
    with snoc.prems have "c \<noteq> CHR ''0''" by simp
    with c have "0 < digit_val c" using digit_val_zero [of c] by auto
    with True c show ?thesis
      by (simp add: py_int_def str_nat_digit digit_val_lt digit_char_val)
  next
    case False
    with snoc.prems have "hd ds \<noteq> CHR ''0''" by simp
    with snoc.IH ds False have IH: "str_nat (py_int ds) = ds" "0 < py_int ds" by simp_all
    then show ?thesis
      using c by (simp add: py_int_snoc str_nat_step digit_val_lt digit_char_val)
  qed
qed

lemma len10:
  "length ts = 10 \<Longrightarrow> \<exists>a b c d e f g h i j. ts = [a, b, c, d, e, f, g, h, i, j]"
  by (auto simp: numeral_eq_Suc length_Suc_conv)

lemma py_int4:
  "py_int [a, b, c, d] = 1000 * digit_val a + 100 * digit_val b + 10 * digit_val c + digit_val d"
  by (simp add: py_int_def)

lemma py_int2: "py_int [a, b] = 10 * digit_val a + digit_val b"
  by (simp add: py_int_def)

lemma fmt_02d_digits:
  assumes a: "is_digit a" and b: "is_digit b" and m: "1 \<le> month" "month \<le> 12"
  shows "[a, b] = fmt_02d month \<longleftrightarrow> int (py_int [a, b]) = month"
proof
  assume "[a, b] = fmt_02d month"
  then have "py_int [a, b] = py_int (fmt_02d month)" by simp
  also have "py_int (fmt_02d month) = nat month"
    using m py_int_str_nat [of "nat month"]
    by (simp add: fmt_02d_def py_str_def py_int_def digit_val_def)
  finally show "int (py_int [a, b]) = month" using m by simp
next
  assume eq: "int (py_int [a, b]) = month"
  show "[a, b] = fmt_02d month"
  proof (cases "month < 10")
    case True
    with eq have "10 * digit_val a + digit_val b < 10" by (simp add: py_int2)
    then have a0: "digit_val a = 0" by simp
    with a have "a = CHR ''0''" by (rule digit_val_zero)
    moreover from eq a0 have "nat month = digit_val b" by (simp add: py_int2)
    ultimately show ?thesis
      using True m b by (simp add: fmt_02d_def py_str_def str_nat_digit digit_val_lt digit_char_val)
  next
    case False
    from m have "\<not> month < 0" by simp
    have "a \<noteq> CHR ''0''"
    proof
      assume "a = CHR ''0''"
      then have "py_int [a, b] < 10" using digit_val_lt [of b] by (simp add: py_int2 digit_val_def)
      with eq False show False by simp
    qed
    with a b str_nat_py_int [of "[a, b]"] have "str_nat (py_int [a, b]) = [a, b]" by simp
    moreover from eq have "nat month = py_int [a, b]" by simp
    ultimately show ?thesis
      using False m by (simp add: fmt_02d_def py_str_def)
  qed
qed

lemma py_str_digits:
  assumes ds: "is_digit a" "is_digit b" "is_digit c" "is_digit d" and y: "1000 \<le> year"
  shows "[a, b, c, d] = py_str year \<longleftrightarrow> int (py_int [a, b, c, d]) = year"
proof
  assume "[a, b, c, d] = py_str year"
  then have "py_int [a, b, c, d] = py_int (py_str year)" by simp
  also have "py_int (py_str year) = nat year"
    using y py_int_str_nat [of "nat year"] by (simp add: py_str_def)
  finally show "int (py_int [a, b, c, d]) = year" using y by simp
next
  assume eq: "int (py_int [a, b, c, d]) = year"
  have "a \<noteq> CHR ''0''"
  proof
    assume "a = CHR ''0''"
    then have "py_int [a, b, c, d] < 1000"
      using digit_val_lt [of b] digit_val_lt [of c] digit_val_lt [of d]
      by (simp add: py_int4 digit_val_def)
    with eq y show False by simp
  qed
  with ds str_nat_py_int [of "[a, b, c, d]"] have "str_nat (py_int [a, b, c, d]) = [a, b, c, d]"
    by simp
  moreover from eq have "nat year = py_int [a, b, c, d]" by simp
  ultimately show "[a, b, c, d] = py_str year"
    using y by (simp add: py_str_def)
qed

lemma padded_period:
  assumes p: "padded r" and m: "1 \<le> month" "month \<le> 12" and y: "1000 \<le> year"
  shows "in_period month year r = dated_in month year r"
    and "(substr (timestamp r) 6 2 = fmt_02d month \<and> substr (timestamp r) 1 4 = py_str year)
           = dated_in month year r"
proof -
  from p have iso: "iso_date (timestamp r)" by (simp add: padded_def)
  then have "length (timestamp r) = 10" by (simp add: iso_date_def)
  from len10 [OF this] obtain a b c d e f g h i j
    where ts: "timestamp r = [a, b, c, d, e, f, g, h, i, j]" by blast
  from iso ts have dg: "is_digit a" "is_digit b" "is_digit c" "is_digit d" "is_digit f" "is_digit g"
    and e: "e = CHR ''-''" and h: "h = CHR ''-''"
    by (simp_all add: iso_date_def)
  from dg have nd: "f \<noteq> CHR ''-''" "g \<noteq> CHR ''-''" by (auto simp: is_digit_def)
  from p ts e h nd have date: "strptime_Ymd (timestamp r)
      = Some (py_int [a, b, c, d], py_int [f, g], py_int [i, j])"
    by (simp add: padded_def strptime_Ymd_def Let_def split: if_splits)
  have mm: "[f, g] = fmt_02d month \<longleftrightarrow> int (py_int [f, g]) = month"
    using dg m by (intro fmt_02d_digits)
  have yy: "[a, b, c, d] = py_str year \<longleftrightarrow> int (py_int [a, b, c, d]) = year"
    using dg y by (intro py_str_digits)
  show "in_period month year r = dated_in month year r"
    using iso ts date mm yy by (simp add: in_period_def dated_in_def strftime_m_def strftime_Y_def)
  show "(substr (timestamp r) 6 2 = fmt_02d month \<and> substr (timestamp r) 1 4 = py_str year)
           = dated_in month year r"
    using ts date mm yy by (simp add: dated_in_def substr_def)
qed

lemma filter_in_period_padded:
  assumes "list_all padded rows" and "1 \<le> month" "month \<le> 12" and "1000 \<le> year"
  shows "filter (in_period month year) rows = filter (dated_in month year) rows"
  using assms by (intro filter_cong refl padded_period(1)) (simp_all add: list_all_iff)

lemma filter_substr_padded:
  assumes "list_all padded rows" and "1 \<le> month" "month \<le> 12" and "1000 \<le> year"
  shows "filter (\<lambda>e. category e = cat \<and> substr (timestamp e) 6 2 = fmt_02d month
                      \<and> substr (timestamp e) 1 4 = py_str year) rows
       = filter (\<lambda>e. category e = cat \<and> dated_in month year e) rows"
proof (rule filter_cong [OF refl])
  fix e
  assume "e \<in> set rows"
  with assms(1) have "padded e" by (simp add: list_all_iff)
  from padded_period(2) [OF this assms(2-4)]
  show "(category e = cat \<and> substr (timestamp e) 6 2 = fmt_02d month
           \<and> substr (timestamp e) 1 4 = py_str year)
        = (category e = cat \<and> dated_in month year e)"
    by auto
qed

lemma view_budget_for_category_padded:
  assumes "list_all padded (expenses db)" and "1 \<le> month" "month \<le> 12" and "1000 \<le> year"
    and b: "filter (same_triple cat month year) (budget db) = b # bs"
  shows "\<exists>st. view_budget_for_category cat month year db
            = BudgetView (budget_amount b)
                (sum_amount (filter (\<lambda>e. category e = cat \<and> dated_in month year e) (expenses db))) st
          \<and> delta st
              = sum_amount (filter (\<lambda>e. category e = cat \<and> dated_in month year e) (expenses db))
                - budget_amount b"
  using b filter_substr_padded [OF assms(1-4), of cat]
  by (simp add: view_budget_for_category_def Let_def)

lemma available_excess_padded:
  assumes "list_all padded (income db)" and "list_all padded (expenses db)"
    and "1 \<le> month" "month \<le> 12" and "1000 \<le> year"
  shows "available_excess month year db
       = sum_amount (filter (dated_in month year) (income db))
         - sum_amount (filter (dated_in month year) (expenses db))
         - total_saved db"
  using filter_in_period_padded [OF assms(1) assms(3-5)]
    filter_in_period_padded [OF assms(2) assms(3-5)]
  by (simp add: available_excess_def Let_def)

text \<open>
  What \<open>view_budget_for_category\<close> reports: nothing but "No budget set" when the triple
  has no row; otherwise the stored amount, the total of the expenses its query selects,
  and a standing whose signed value is that total less the amount. On the ledger typed
  with padded dates it gives the figures of the specification's example.
\<close>

lemma view_budget_for_category_none:
  "filter (same_triple cat month year) (budget db) = [] \<Longrightarrow>
   view_budget_for_category cat month year db = NoBudgetSet"
  by (simp add: view_budget_for_category_def)

lemma view_budget_for_category_some:
  assumes "filter (same_triple cat month year) (budget db) = b # bs"
  shows "\<exists>st. view_budget_for_category cat month year db
            = BudgetView (budget_amount b)
                (sum_amount (filter (\<lambda>e. category e = cat
                                        \<and> substr (timestamp e) 6 2 = fmt_02d month
                                        \<and> substr (timestamp e) 1 4 = py_str year) (expenses db))) st
          \<and> delta st = sum_amount (filter (\<lambda>e. category e = cat
                                        \<and> substr (timestamp e) 6 2 = fmt_02d month
                                        \<and> substr (timestamp e) 1 4 = py_str year) (expenses db))
                        - budget_amount b"
  using assms by (simp add: view_budget_for_category_def Let_def)

lemma padded_example:
  "view_budget_for_category ''Food'' 3 2025 (set_budget ''Food'' 300 3 2025 march_ledger)
       = BudgetView 300 400 (OverBudgetBy 100)
   \<and> calculate_overall_budget 3 2025 march_ledger = (1000, 400, 600)"
  by code_simp

text \<open>
  C7 asks that the evaluation of a budget report as spent the sum of all expenses of the
  category dated in the month. \<open>add_expense\<close> accepts the date 2025-3-15 (\<open>strptime\<close>
  reads it as 15 March 2025) and stores the text as typed; the query compares characters
  6-7 of that text, \<open>3-\<close>, with \<open>03\<close>. So with a budget of 300 for Food in March 2025
  and an expense of 400 for Food on that date, the view reports 0 spent and 300 under
  budget.
\<close>

theorem unpadded_expense_not_in_budget_view:
  "add_expense 400 [''2025-3-15''] ''Food'' (Some 1)
       (snd (add_income 1000 [''2025-3-01''] ''Salary'' (Some 1) empty_database))
     = (EntryAdded, unpadded_ledger)
   \<and> map (\<lambda>e. (category e, amount e, strptime_Ymd (timestamp e))) (expenses unpadded_ledger)
       = [(''Food'', 400, Some (2025, 3, 15))]
   \<and> view_budget_for_category ''Food'' 3 2025 (set_budget ''Food'' 300 3 2025 unpadded_ledger)
       = BudgetView 300 0 (UnderBudgetBy 300)"
  by code_simp

text \<open>
  The available excess is the net of \<open>calculate_overall_budget\<close> less everything saved,
  and an excess that is not above zero stops the allocation before any goal is touched.
\<close>

lemma available_excess_net:
  "available_excess month year db
     = snd (snd (calculate_overall_budget month year db)) - total_saved db"
  by (simp add: available_excess_def calculate_overall_budget_def Let_def)

lemma no_excess_no_allocation:
  "available_excess month year db \<le> 0 \<Longrightarrow>
   snd (add_excess_income (Some month) (Some year) es db) = db"
  by (simp add: add_excess_income_def)

text \<open>
  C5 asks that the available excess be the income of the month less its expenses less
  everything saved. With an income of 1000 and an expense of 400 entered for March 2025
  with the dates typed as 2025-3-01 and 2025-3-15, and nothing saved, the excess for
  March 2025 is computed as 0: \<open>strftime\<close> reads neither text as a date, so neither
  row is in any period, and the allocation stops with "No excess income available".
\<close>

theorem unpadded_income_not_in_excess:
  "map (\<lambda>e. (amount e, strptime_Ymd (timestamp e))) (income unpadded_ledger)
       = [(1000, Some (2025, 3, 1))]
   \<and> map (\<lambda>e. (amount e, strptime_Ymd (timestamp e))) (expenses unpadded_ledger)
       = [(400, Some (2025, 3, 15))]
   \<and> total_saved (snd (create_goal ''Car'' (Some 5000) ''2026-01-01'' unpadded_ledger)) = 0
   \<and> available_excess 3 2025 (snd (create_goal ''Car'' (Some 5000) ''2026-01-01'' unpadded_ledger)) = 0
   \<and> fst (add_excess_income (Some 3) (Some 2025) [Amount 100]
        (snd (create_goal ''Car'' (Some 5000) ''2026-01-01'' unpadded_ledger))) = NoExcessIncome"
  by code_simp

end
